theory Spec2Isabelle
  imports Complex_Main "HOL-Library.AList"
begin

section \<open>PulseGrid analytics engine: numbers and time series\<close>

text \<open>
  A JavaScript number is a finite value or one of the three non-finite values. Finite
  values are modelled as reals: binary64 rounding, overflow of finite arithmetic and the
  sign of zero are abstracted away. The non-finite values are kept, because the engine's
  guards (\<^verbatim>\<open>isFinite\<close>, \<^verbatim>\<open>!== null\<close>) are about them.
\<close>

datatype jsnum = Fin real | PInf | NInf | NaN

text \<open>A time point \<^verbatim>\<open>{year, value}\<close>; \<open>None\<close> is \<^verbatim>\<open>null\<close>. Years are calendar
  years, modelled as naturals.\<close>

record point =
  year :: nat
  val :: "jsnum option"

text \<open>\<^verbatim>\<open>v !== null && isFinite(v)\<close>\<close>

fun finite_of :: "jsnum option \<Rightarrow> real option" where
  "finite_of (Some (Fin r)) = Some r"
| "finite_of _ = None"

definition valid :: "point \<Rightarrow> bool" where
  "valid d = (finite_of (val d) \<noteq> None)"

text \<open>The numeric value of a point that passed the filter.\<close>

definition num :: "point \<Rightarrow> real" where
  "num d = (case finite_of (val d) of Some r \<Rightarrow> r | None \<Rightarrow> 0)"

definition pt :: "nat \<Rightarrow> real \<Rightarrow> point" where
  "pt y v = \<lparr>year = y, val = Some (Fin v)\<rparr>"

subsection \<open>Arithmetic on JavaScript numbers\<close>

text \<open>The IEEE rules for the non-finite values; on finite values the real operation.
  A finite value divided by zero is an infinity (or \<^verbatim>\<open>NaN\<close> for \<^verbatim>\<open>0/0\<close>).\<close>

fun jneg :: "jsnum \<Rightarrow> jsnum" where
  "jneg (Fin a) = Fin (- a)"
| "jneg PInf = NInf"
| "jneg NInf = PInf"
| "jneg NaN = NaN"

fun jadd :: "jsnum \<Rightarrow> jsnum \<Rightarrow> jsnum" where
  "jadd (Fin a) (Fin b) = Fin (a + b)"
| "jadd NaN _ = NaN"
| "jadd _ NaN = NaN"
| "jadd PInf NInf = NaN"
| "jadd NInf PInf = NaN"
| "jadd PInf _ = PInf"
| "jadd _ PInf = PInf"
| "jadd NInf _ = NInf"
| "jadd _ NInf = NInf"

definition jsub :: "jsnum \<Rightarrow> jsnum \<Rightarrow> jsnum" where
  "jsub a b = jadd a (jneg b)"

fun jmul :: "jsnum \<Rightarrow> jsnum \<Rightarrow> jsnum" where
  "jmul (Fin a) (Fin b) = Fin (a * b)"
| "jmul NaN _ = NaN"
| "jmul _ NaN = NaN"
| "jmul (Fin a) y = (if a = 0 then NaN else if a > 0 then y else jneg y)"
| "jmul x (Fin b) = (if b = 0 then NaN else if b > 0 then x else jneg x)"
| "jmul PInf y = y"
| "jmul NInf y = jneg y"

fun jdiv :: "jsnum \<Rightarrow> jsnum \<Rightarrow> jsnum" where
  "jdiv (Fin a) (Fin b) =
     (if b \<noteq> 0 then Fin (a / b) else if a = 0 then NaN else if a > 0 then PInf else NInf)"
| "jdiv NaN _ = NaN"
| "jdiv _ NaN = NaN"
| "jdiv (Fin a) _ = Fin 0"
| "jdiv x (Fin b) = (if b \<ge> 0 then x else jneg x)"
| "jdiv _ _ = NaN"

text \<open>\<^verbatim>\<open>Math.sqrt\<close>, \<^verbatim>\<open>Math.abs\<close>, \<^verbatim>\<open>Math.round\<close> (half rounds up).\<close>

fun jsqrt :: "jsnum \<Rightarrow> jsnum" where
  "jsqrt (Fin a) = (if a < 0 then NaN else Fin (sqrt a))"
| "jsqrt PInf = PInf"
| "jsqrt _ = NaN"

fun jabs :: "jsnum \<Rightarrow> jsnum" where
  "jabs (Fin a) = Fin \<bar>a\<bar>"
| "jabs NaN = NaN"
| "jabs _ = PInf"

definition round_half_up :: "real \<Rightarrow> real" where
  "round_half_up a = of_int \<lfloor>a + 1 / 2\<rfloor>"

fun jround :: "jsnum \<Rightarrow> jsnum" where
  "jround (Fin a) = Fin (round_half_up a)"
| "jround x = x"

text \<open>Comparisons: every comparison with \<^verbatim>\<open>NaN\<close> is false.\<close>

fun jeq :: "jsnum \<Rightarrow> jsnum \<Rightarrow> bool" where
  "jeq (Fin a) (Fin b) = (a = b)"
| "jeq PInf PInf = True"
| "jeq NInf NInf = True"
| "jeq _ _ = False"

fun jlt :: "jsnum \<Rightarrow> jsnum \<Rightarrow> bool" where
  "jlt (Fin a) (Fin b) = (a < b)"
| "jlt NaN _ = False"
| "jlt _ NaN = False"
| "jlt NInf NInf = False"
| "jlt NInf _ = True"
| "jlt PInf _ = False"
| "jlt _ PInf = True"
| "jlt _ NInf = False"

definition jgt :: "jsnum \<Rightarrow> jsnum \<Rightarrow> bool" where
  "jgt a b = jlt b a"

definition jge :: "jsnum \<Rightarrow> jsnum \<Rightarrow> bool" where
  "jge a b = (jlt b a \<or> jeq a b)"

text \<open>\<^verbatim>\<open>Array.prototype.sort(cmp)\<close>: a stable sort; an element moves behind another
  only when the comparator is positive (a \<^verbatim>\<open>NaN\<close> comparator result counts as 0).\<close>

fun js_insert :: "('a \<Rightarrow> 'a \<Rightarrow> jsnum) \<Rightarrow> 'a \<Rightarrow> 'a list \<Rightarrow> 'a list" where
  "js_insert cmp x [] = [x]"
| "js_insert cmp x (y # ys) =
     (if jgt (cmp x y) (Fin 0) then y # js_insert cmp x ys else x # y # ys)"

definition js_sort :: "('a \<Rightarrow> 'a \<Rightarrow> jsnum) \<Rightarrow> 'a list \<Rightarrow> 'a list" where
  "js_sort cmp xs = foldr (js_insert cmp) xs []"

text \<open>A cell of a two-dimensional array: \<^verbatim>\<open>M[i][j] = v\<close>.\<close>

definition setCell :: "'a list list \<Rightarrow> nat \<Rightarrow> nat \<Rightarrow> 'a \<Rightarrow> 'a list list" where
  "setCell M i j v = M[i := (M ! i)[j := v]]"


section \<open>Descriptive statistics (engine.js)\<close>

record stats =
  mean :: real
  std :: real
  minimum :: real
  maximum :: real
  median :: real
  count :: nat
  variance :: real

definition zeroStats :: stats where
  "zeroStats = \<lparr>mean = 0, std = 0, minimum = 0, maximum = 0, median = 0, count = 0, variance = 0\<rparr>"

text \<open>\<^verbatim>\<open>PG.calcStats\<close>. After the filter every value is finite, \<open>n > 0\<close> and the variance
  is a sum of squares, so no division or square root leaves the finite numbers.\<close>

definition calcStats :: "point list \<Rightarrow> stats" where
  "calcStats series =
    (if series = [] then zeroStats
     else
       let vals = List.map_filter finite_of (map val series);
           n = length vals
       in if n = 0 then zeroStats
          else
            let mean = foldl (\<lambda>a b. a + b) 0 vals / real n;
                variance = foldl (\<lambda>a b. a + (b - mean)\<^sup>2) 0 vals
                             / (if n > 1 then real n - 1 else 1);
                std = sqrt variance;
                sorted = sort vals;
                median = (if n mod 2 = 0
                          then (sorted ! (n div 2 - 1) + sorted ! (n div 2)) / 2
                          else sorted ! (n div 2))
            in \<lparr>mean = mean, std = std, minimum = sorted ! 0, maximum = sorted ! (n - 1),
                median = median, count = n, variance = variance\<rparr>)"

section \<open>Anomaly detection (engine.js)\<close>

text \<open>An anomaly is the point with three more fields (\<^verbatim>\<open>{...d, z, isZ, isIQR}\<close>). The
  source stores \<^verbatim>\<open>z.toFixed(2)\<close>, a string; the model keeps the number.\<close>

record anomaly = point +
  z :: real
  isZ :: bool
  isIQR :: bool

record fence_stats =
  f_mean :: real
  f_std :: real
  q1 :: real
  q3 :: real
  iqr :: real
  iqrLow :: real
  iqrHigh :: real

record anomaly_result =
  anomalies :: "anomaly list"
  normal :: "point list"
  stats :: "fence_stats option"

text \<open>The body of the \<^verbatim>\<open>forEach\<close>: one point is pushed to one of the two arrays.\<close>

definition classify ::
  "string \<Rightarrow> real \<Rightarrow> real \<Rightarrow> real \<Rightarrow> real \<Rightarrow> real \<Rightarrow>
   anomaly list \<times> point list \<Rightarrow> point \<Rightarrow> anomaly list \<times> point list" where
  "classify method threshold mu sd lo hi acc d =
    (let z = (if sd > 0 then \<bar>(num d - mu) / sd\<bar> else 0);
         isZ = (z \<ge> threshold);
         isIQR = (num d < lo \<or> num d > hi);
         flag = (if method = ''zscore'' then isZ
                 else if method = ''iqr'' then isIQR
                 else isZ \<or> isIQR)
     in if flag
        then (fst acc @ [point.extend d \<lparr>z = z, isZ = isZ, isIQR = isIQR\<rparr>], snd acc)
        else (fst acc, snd acc @ [d]))"

definition detectAnomalies :: "point list \<Rightarrow> string \<Rightarrow> real \<Rightarrow> anomaly_result" where
  "detectAnomalies series method threshold =
    (let vals = filter valid series;
         n = length vals
     in if n < 4 then \<lparr>anomalies = [], normal = vals, stats = None\<rparr>
        else
          let numbers = map num vals;
              s = calcStats vals;
              sorted = sort numbers;
              q1 = sorted ! nat \<lfloor>real n * 0.25\<rfloor>;
              q3 = sorted ! nat \<lfloor>real n * 0.75\<rfloor>;
              iqr = q3 - q1;
              iqrLow = q1 - 1.5 * iqr;
              iqrHigh = q3 + 1.5 * iqr;
              res = foldl (classify method threshold (mean s) (std s) iqrLow iqrHigh) ([], []) vals
          in \<lparr>anomalies = fst res, normal = snd res,
              stats = Some \<lparr>f_mean = mean s, f_std = std s, q1 = q1, q3 = q3, iqr = iqr,
                            iqrLow = iqrLow, iqrHigh = iqrHigh\<rparr>\<rparr>)"

text \<open>The parts of the loop body, named for the proofs: the z-score of a point, the
  fence test, the flag and the pushed anomaly.\<close>

definition zOf :: "real \<Rightarrow> real \<Rightarrow> point \<Rightarrow> real" where
  "zOf mu sd d = (if sd > 0 then \<bar>(num d - mu) / sd\<bar> else 0)"

definition outside :: "real \<Rightarrow> real \<Rightarrow> point \<Rightarrow> bool" where
  "outside lo hi d = (num d < lo \<or> num d > hi)"

definition flagOf :: "string \<Rightarrow> real \<Rightarrow> real \<Rightarrow> real \<Rightarrow> real \<Rightarrow> real \<Rightarrow> point \<Rightarrow> bool" where
  "flagOf method threshold mu sd lo hi d =
     (if method = ''zscore'' then threshold \<le> zOf mu sd d
      else if method = ''iqr'' then outside lo hi d
      else threshold \<le> zOf mu sd d \<or> outside lo hi d)"

definition mkAnomaly :: "real \<Rightarrow> real \<Rightarrow> real \<Rightarrow> real \<Rightarrow> real \<Rightarrow> point \<Rightarrow> anomaly" where
  "mkAnomaly threshold mu sd lo hi d =
     point.extend d \<lparr>z = zOf mu sd d, isZ = (threshold \<le> zOf mu sd d), isIQR = outside lo hi d\<rparr>"

text \<open>The six-point series with values 10, 10, 10, 10, 10, 100 at the given years.\<close>

definition sixPoints :: "nat \<Rightarrow> nat \<Rightarrow> nat \<Rightarrow> nat \<Rightarrow> nat \<Rightarrow> nat \<Rightarrow> point list" where
  "sixPoints y0 y1 y2 y3 y4 y5 = [pt y0 10, pt y1 10, pt y2 10, pt y3 10, pt y4 10, pt y5 100]"


section \<open>Volatility (engine.js)\<close>

text \<open>\<^verbatim>\<open>PG.calcVolatility\<close>. The growth steps divide by a value checked to be nonzero,
  so they are finite; they are handed to \<open>calcStats\<close> as points numbered from 0.\<close>

definition growthRates :: "real list \<Rightarrow> real list" where
  "growthRates vals =
     concat (map (\<lambda>i. if vals ! (i - 1) \<noteq> 0
                        then [(vals ! i - vals ! (i - 1)) / \<bar>vals ! (i - 1)\<bar> * 100]
                        else [])
                 [1..<length vals])"

definition indexed :: "real list \<Rightarrow> point list" where
  "indexed vs = map (\<lambda>(i, v). pt i v) (enumerate 0 vs)"

definition calcVolatility :: "point list \<Rightarrow> real option" where
  "calcVolatility series =
     (if series = [] then None
      else
        let vals = List.map_filter finite_of (map val series)
        in if length vals < 2 then None
           else Some (std (calcStats (indexed (growthRates vals)))))"

text \<open>The standard deviation as the specification words it, with the \<open>n - 1\<close>
  denominator; for fewer than two observations it is taken to be 0.\<close>

definition sample_std :: "real list \<Rightarrow> real" where
  "sample_std xs =
     (let n = length xs; m = sum_list xs / real n
      in if n < 2 then 0 else sqrt (sum_list (map (\<lambda>x. (x - m)\<^sup>2) xs) / (real n - 1)))"

section \<open>Holt-Winters double exponential smoothing (engine.js)\<close>

record hw_params =
  alpha :: real
  beta :: real
  horizon :: nat
  ci :: int

text \<open>The source formats \<^verbatim>\<open>mape\<close> and \<^verbatim>\<open>rmse\<close> with \<^verbatim>\<open>toFixed\<close>; the model keeps
  the numbers. \<^verbatim>\<open>mape\<close> is a JavaScript number: its divisions are not guarded.\<close>

record hw_accuracy =
  mape :: jsnum
  rmse :: real
  acc_n :: nat

record hw_result =
  historical :: "point list"
  smoothed :: "(nat \<times> real) list"
  forecast :: "(nat \<times> real) list"
  upperCI :: "(nat \<times> real) list"
  lowerCI :: "(nat \<times> real) list"
  params :: hw_params
  accuracy :: hw_accuracy

text \<open>One pass of the smoothing loop: the state is level, trend and the two arrays.\<close>

definition hwStep ::
  "real \<Rightarrow> real \<Rightarrow> real \<times> real \<times> real list \<times> real list \<Rightarrow> real \<Rightarrow>
   real \<times> real \<times> real list \<times> real list" where
  "hwStep a b st obs =
     (case st of (prevL, prevT, sm, errs) \<Rightarrow>
        let level = a * obs + (1 - a) * (prevL + prevT);
            trend = b * (level - prevL) + (1 - b) * prevT;
            fitted = prevL + prevT
        in (level, trend, sm @ [fitted], errs @ [obs - fitted]))"

text \<open>\<^verbatim>\<open>errors.filter((_, i) => data[i] !== 0).map((e, i) => Math.abs(e / data[i]) * 100)
  .reduce((a, b) => a + b, 0) / n\<close>: the index of the \<^verbatim>\<open>map\<close> callback counts the
  filtered array.\<close>

definition mapeOf :: "real list \<Rightarrow> real list \<Rightarrow> jsnum" where
  "mapeOf errs ds =
     (let kept = map fst (filter (\<lambda>(e, i). ds ! i \<noteq> 0) (zip errs [0..<length errs]));
          terms = map (\<lambda>(i, e). jmul (jabs (jdiv (Fin e) (Fin (ds ! i)))) (Fin 100))
                      (enumerate 0 kept)
      in jdiv (foldl jadd (Fin 0) terms) (Fin (real (length ds))))"

text \<open>\<^verbatim>\<open>PG.holtwinters\<close>. The counter \<^verbatim>\<open>PG.metrics.models\<close> is passed in and returned;
  it is incremented only when a result is produced.\<close>

definition holtwinters ::
  "nat \<Rightarrow> point list \<Rightarrow> real \<Rightarrow> real \<Rightarrow> nat \<Rightarrow> int \<Rightarrow> hw_result option \<times> nat" where
  "holtwinters models series a b hz cl =
     (if series = [] then (None, models)
      else
        let vals = filter valid series;
            n = length vals
        in if n < 3 then (None, models)
           else
             let ds = map num vals;
                 st = foldl (hwStep a b) (ds ! 0, ds ! 1 - ds ! 0, [], []) ds;
                 level = fst st;
                 trend = fst (snd st);
                 sm = fst (snd (snd st));
                 errs = snd (snd (snd st));
                 lastYear = year (vals ! (n - 1));
                 fc = map (\<lambda>h. (lastYear + h, level + real h * trend)) [1..<hz + 1];
                 s = calcStats (indexed errs);
                 zq = (if cl = 99 then 2.576 else if cl = 90 then 1.645 else 1.960);
                 se = std s * sqrt (1 + 0.1 * real hz);
                 upper = map (\<lambda>f. (fst f, snd f + zq * se)) fc;
                 lower = map (\<lambda>f. (fst f, snd f - zq * se)) fc;
                 mp = mapeOf errs ds;
                 rm = sqrt (foldl (\<lambda>x y. x + y) 0 (map (\<lambda>e. e * e) errs) / real n)
             in (Some \<lparr>historical = vals,
                       smoothed = map (\<lambda>(d, i). (year d, sm ! i)) (zip vals [0..<n]),
                       forecast = fc, upperCI = upper, lowerCI = lower,
                       params = \<lparr>alpha = a, beta = b, horizon = hz, ci = cl\<rparr>,
                       accuracy = \<lparr>mape = mp, rmse = rm, acc_n = n\<rparr>\<rparr>,
                 models + 1))"

text \<open>The MAPE as the specification words it: the mean of \<open>|residual/actual| * 100\<close> over
  exactly the fitted-versus-actual pairs whose actual value is nonzero (it is only used
  on data with such a pair).\<close>

definition mape_spec :: "real list \<Rightarrow> real list \<Rightarrow> real" where
  "mape_spec errs ds =
     (let ps = filter (\<lambda>(e, d). d \<noteq> 0) (zip errs ds)
      in sum_list (map (\<lambda>(e, d). \<bar>e / d\<bar> * 100) ps) / real (length ps))"


text \<open>The residuals the smoothing loop leaves for a data array.\<close>

definition hwErrors :: "real \<Rightarrow> real \<Rightarrow> real list \<Rightarrow> real list" where
  "hwErrors a b ds = snd (snd (snd (foldl (hwStep a b) (ds ! 0, ds ! 1 - ds ! 0, [], []) ds)))"

section \<open>Pearson correlation (engine.js)\<close>

text \<open>
  \<^verbatim>\<open>PG.pearson\<close>. The object \<^verbatim>\<open>byYear\<close> is an association list from the year to the
  pair \<^verbatim>\<open>{a, b}\<close>, where \<^verbatim>\<open>b\<close> may still be undefined. Only \<^verbatim>\<open>null\<close> is filtered: a
  non-finite value enters the pairs. \<^verbatim>\<open>Object.values\<close> lists integer keys in ascending
  order.
\<close>

definition putA ::
  "(nat \<times> jsnum \<times> jsnum option) list \<Rightarrow> point \<Rightarrow> (nat \<times> jsnum \<times> jsnum option) list" where
  "putA m d = (case val d of None \<Rightarrow> m | Some v \<Rightarrow> AList.update (year d) (v, None) m)"

definition putB ::
  "(nat \<times> jsnum \<times> jsnum option) list \<Rightarrow> point \<Rightarrow> (nat \<times> jsnum \<times> jsnum option) list" where
  "putB m d =
     (case val d of None \<Rightarrow> m
      | Some v \<Rightarrow> (case map_of m (year d) of None \<Rightarrow> m
                  | Some p \<Rightarrow> AList.update (year d) (fst p, Some v) m))"

definition byYearA :: "point list \<Rightarrow> (nat \<times> jsnum \<times> jsnum option) list" where
  "byYearA a = foldl putA [] a"

definition byYearB ::
  "(nat \<times> jsnum \<times> jsnum option) list \<Rightarrow> point list \<Rightarrow> (nat \<times> jsnum \<times> jsnum option) list" where
  "byYearB m0 b = foldl putB m0 b"

definition alignPairs :: "point list \<Rightarrow> point list \<Rightarrow> (jsnum \<times> jsnum) list" where
  "alignPairs a b =
     List.map_filter (\<lambda>p. case snd p of None \<Rightarrow> None | Some y \<Rightarrow> Some (fst p, y))
       (map snd (sort_key fst (byYearB (byYearA a) b)))"

text \<open>The accumulation loop over \<^verbatim>\<open>xs[i]\<close>, \<^verbatim>\<open>ys[i]\<close>, written over the pairs.\<close>

definition pearsonSums :: "jsnum \<Rightarrow> jsnum \<Rightarrow> (jsnum \<times> jsnum) list \<Rightarrow> jsnum \<times> jsnum \<times> jsnum" where
  "pearsonSums mx my pairs =
     foldl (\<lambda>(nm, dx, dy) (x, y).
              let ex = jsub x mx; ey = jsub y my
              in (jadd nm (jmul ex ey), jadd dx (jmul ex ex), jadd dy (jmul ey ey)))
           (Fin 0, Fin 0, Fin 0) pairs"

definition pearson :: "point list \<Rightarrow> point list \<Rightarrow> jsnum option" where
  "pearson a b =
     (let pairs = alignPairs a b
      in if length pairs < 3 then None
         else
           let xs = map fst pairs;
               ys = map snd pairs;
               n = length pairs;
               mx = jdiv (foldl jadd (Fin 0) xs) (Fin (real n));
               my = jdiv (foldl jadd (Fin 0) ys) (Fin (real n));
               tot = pearsonSums mx my pairs;
               denom = jsqrt (jmul (fst (snd tot)) (snd (snd tot)))
           in if jeq denom (Fin 0) then Some (Fin 0)
              else Some (jdiv (jround (jmul (jdiv (fst tot) denom) (Fin 1000))) (Fin 1000)))"





text \<open>Two series that share the years 2000 to 2003; the first has \<^verbatim>\<open>NaN\<close> at 2003.\<close>

definition nanSeries :: "point list" where
  "nanSeries = [pt 2000 1, pt 2001 2, pt 2002 3, \<lparr>year = 2003, val = Some NaN\<rparr>]"

definition finSeries :: "point list" where
  "finSeries = [pt 2000 1, pt 2001 2, pt 2002 3, pt 2003 4]"

subsection \<open>The correlation matrix\<close>

record dataset =
  label :: string
  data :: "point list"

text \<open>An insight. Its \<^verbatim>\<open>text\<close> is the interpolation of the two labels, the strength, the
  direction and \<^verbatim>\<open>r.toFixed(2)\<close>; the model keeps the parts.\<close>

record insight =
  labelA :: string
  labelB :: string
  strength :: string
  direction :: string
  color :: string
  corr :: jsnum

record pearson_matrix =
  labels :: "string list"
  matrix :: "jsnum option list list"
  insights :: "insight list"

definition fillMatrix :: "dataset list \<Rightarrow> jsnum option list list" where
  "fillMatrix datasets =
     (let k = length datasets
      in foldl (\<lambda>M i.
                  foldl (\<lambda>M' j.
                           let r = pearson (data (datasets ! i)) (data (datasets ! j))
                           in setCell (setCell M' i j r) j i r)
                        (setCell M i i (Some (Fin 1))) [i + 1..<k])
               (replicate k (replicate k None)) [0..<k])"

definition mkInsight :: "string \<Rightarrow> string \<Rightarrow> jsnum \<Rightarrow> insight" where
  "mkInsight la lb r =
     (let a = jabs r;
          sc = (if jge a (Fin 0.85) then (''very strong'', ''#00D4FF'')
                else if jge a (Fin 0.65) then (''strong'', ''#67E8F9'')
                else if jge a (Fin 0.45) then (''moderate'', ''#A78BFA'')
                else (''weak'', ''#6B7280''))
      in \<lparr>labelA = la, labelB = lb, strength = fst sc,
          direction = (if jgt r (Fin 0) then ''positive'' else ''negative''),
          color = snd sc, corr = r\<rparr>)"

definition collectInsights :: "string list \<Rightarrow> jsnum option list list \<Rightarrow> nat \<Rightarrow> insight list" where
  "collectInsights ls M k =
     foldl (\<lambda>acc i.
              foldl (\<lambda>acc' j.
                       case M ! i ! j of None \<Rightarrow> acc'
                       | Some r \<Rightarrow> if jge (jabs r) (Fin 0.45)
                                   then acc' @ [mkInsight (ls ! i) (ls ! j) r]
                                   else acc')
                    acc [i + 1..<k])
           [] [0..<k]"

definition pearsonMatrix :: "dataset list \<Rightarrow> pearson_matrix" where
  "pearsonMatrix datasets =
     (let k = length datasets;
          ls = map label datasets;
          M = fillMatrix datasets;
          ins = js_sort (\<lambda>a b. jsub (jabs (corr b)) (jabs (corr a))) (collectInsights ls M k)
      in \<lparr>labels = ls, matrix = M, insights = take 5 ins\<rparr>)"


text \<open>
  A two-dimensional array with \<open>k\<close> rows of length \<open>k\<close>.
\<close>

definition square :: "'a list list \<Rightarrow> nat \<Rightarrow> bool" where
  "square M k = (length M = k \<and> (\<forall>row \<in> set M. length row = k))"

text \<open>
  The correlation of the datasets at two positions.
\<close>

definition corrAt :: "dataset list \<Rightarrow> nat \<Rightarrow> nat \<Rightarrow> jsnum option" where
  "corrAt ds i j = pearson (data (ds ! i)) (data (ds ! j))"

text \<open>
  The two assignments \<^verbatim>\<open>matrix[i][j] = r; matrix[j][i] = r\<close>.
\<close>

definition mirrorSet :: "'a list list \<Rightarrow> nat \<Rightarrow> nat \<Rightarrow> 'a \<Rightarrow> 'a list list" where
  "mirrorSet M i j r = setCell (setCell M i j r) j i r"

text \<open>
  One pass of the outer loop that fills the matrix.
\<close>

definition fillRow :: "dataset list \<Rightarrow> jsnum option list list \<Rightarrow> nat \<Rightarrow> jsnum option list list" where
  "fillRow ds M i =
     foldl (\<lambda>M' j. let r = pearson (data (ds ! i)) (data (ds ! j))
                    in setCell (setCell M' i j r) j i r)
           (setCell M i i (Some (Fin 1))) [i + 1..<length ds]"

text \<open>
  An insight whose \<open>|r|\<close> is at least 0.45.
\<close>

definition strongEnough :: "insight \<Rightarrow> bool" where
  "strongEnough x = jge (jabs (corr x)) (Fin 0.45)"

text \<open>
  The order of the insight list: \<open>|r|\<close> does not increase.
\<close>

definition byAbsDesc :: "insight \<Rightarrow> insight \<Rightarrow> bool" where
  "byAbsDesc a b = jge (jabs (corr a)) (jabs (corr b))"

text \<open>
  The comparator handed to \<^verbatim>\<open>sort\<close>.
\<close>

definition absCmp :: "insight \<Rightarrow> insight \<Rightarrow> jsnum" where
  "absCmp a b = jsub (jabs (corr b)) (jabs (corr a))"

text \<open>
  Two datasets over the years 2000 to 2002, one rising and one falling.
\<close>

definition twoSets :: "dataset list" where
  "twoSets = [\<lparr>label = ''A'', data = [pt 2000 1, pt 2001 2, pt 2002 3]\<rparr>,
              \<lparr>label = ''B'', data = [pt 2000 3, pt 2001 2, pt 2002 1]\<rparr>]"

section \<open>Linear algebra kernel (embed.js)\<close>

text \<open>
  \<^verbatim>\<open>solveLinearSystem(A, b)\<close>: Gaussian elimination with partial pivoting on the augmented
  matrix \<open>M\<close>. \<open>A\<close> is square with \<open>n\<close> rows and \<open>b\<close> has \<open>n\<close> entries, as
  \<^verbatim>\<open>computeOLSResiduals\<close> builds them. Every division is by a pivot that passed the
  \<^verbatim>\<open>1e-12\<close> check, so finite inputs stay finite.
\<close>

definition pivotRow :: "real list list \<Rightarrow> nat \<Rightarrow> nat \<Rightarrow> nat" where
  "pivotRow M n col =
     foldl (\<lambda>maxRow row. if \<bar>M ! row ! col\<bar> > \<bar>M ! maxRow ! col\<bar> then row else maxRow)
           col [col + 1..<n]"

definition swapRows :: "real list list \<Rightarrow> nat \<Rightarrow> nat \<Rightarrow> real list list" where
  "swapRows M i j = M[i := M ! j, j := M ! i]"

definition elimRow :: "real list list \<Rightarrow> nat \<Rightarrow> nat \<Rightarrow> nat \<Rightarrow> real list list" where
  "elimRow M n col row =
     (let factor = M ! row ! col / M ! col ! col
      in M[row := foldl (\<lambda>r j. r[j := r ! j - factor * (M ! col ! j)]) (M ! row) [col..<n + 1]])"

definition elimBelow :: "real list list \<Rightarrow> nat \<Rightarrow> nat \<Rightarrow> real list list" where
  "elimBelow M n col = foldl (\<lambda>M' row. elimRow M' n col row) M [col + 1..<n]"

text \<open>The column loop; \<open>None\<close> is the \<^verbatim>\<open>return null\<close> of a singular system.\<close>

fun eliminate :: "nat \<Rightarrow> nat list \<Rightarrow> real list list \<Rightarrow> real list list option" where
  "eliminate n [] M = Some M"
| "eliminate n (col # cols) M =
     (let M1 = swapRows M col (pivotRow M n col)
      in if \<bar>M1 ! col ! col\<bar> < 1 / 10 ^ 12 then None
         else eliminate n cols (elimBelow M1 n col))"

text \<open>Back substitution. \<^verbatim>\<open>new Array(n)\<close> is modelled with placeholders: entry \<open>i\<close> is
  written before it is read.\<close>

definition backSubst :: "real list list \<Rightarrow> nat \<Rightarrow> real list" where
  "backSubst M n =
     foldl (\<lambda>x i. x[i := foldl (\<lambda>xi j. xi - M ! i ! j * x ! j) (M ! i ! n) [i + 1..<n]
                          / M ! i ! i])
           (replicate n 0) (rev [0..<n])"

definition augment :: "real list list \<Rightarrow> real list \<Rightarrow> real list list" where
  "augment A b = map (\<lambda>i. A ! i @ [b ! i]) [0..<length A]"

definition solveLinearSystem :: "real list list \<Rightarrow> real list \<Rightarrow> real list option" where
  "solveLinearSystem A b =
     (let n = length A
      in case eliminate n [0..<n] (augment A b) of
           None \<Rightarrow> None
         | Some M \<Rightarrow> Some (backSubst M n))"

text \<open>The matrix on which column \<open>col\<close> is entered when no earlier column stopped the
  loop, and the pivot chosen there.\<close>

fun stateBefore :: "real list list \<Rightarrow> real list \<Rightarrow> nat \<Rightarrow> real list list" where
  "stateBefore A b 0 = augment A b"
| "stateBefore A b (Suc c) =
     (let M = stateBefore A b c; n = length A
      in elimBelow (swapRows M c (pivotRow M n c)) n c)"

definition pivotAt :: "real list list \<Rightarrow> real list \<Rightarrow> nat \<Rightarrow> real" where
  "pivotAt A b col =
     (let M = stateBefore A b col
      in swapRows M col (pivotRow M (length A) col) ! col ! col)"

subsection \<open>Ordinary least squares\<close>






section \<open>F-distribution p-value (embed.js)\<close>

text \<open>\<^verbatim>\<open>Math.log\<close> and \<^verbatim>\<open>Math.exp\<close> are the real functions; the logarithm is only
  taken of positive numbers on the path from \<open>fToPValue\<close>.\<close>

definition lanczos :: "real list" where
  "lanczos = [76.18009172947146, - 86.50532032941677, 24.01409824083091,
              - 1.231739572450155, 1.208650973866179 / 10 ^ 3, - 5.395239384953 / 10 ^ 6]"

definition lnGammaSer :: "real \<Rightarrow> real" where
  "lnGammaSer zz =
     foldl (\<lambda>ser j. ser + lanczos ! j / (zz + real (j + 1))) 1.000000000190015 [0..<6]"






section \<open>Granger causality test (embed.js)\<close>
































section \<open>Composite risk scorer (pipeline.js)\<close>

record indicator =
  code :: string
  name :: string
  weight :: real
  signal :: "real \<Rightarrow> real option \<Rightarrow> real"

text \<open>The six leading indicators; the second argument of a signal is the prior value,
  \<open>None\<close> for \<^verbatim>\<open>null\<close>.\<close>

definition RECESSION_INDICATORS :: "indicator list" where
  "RECESSION_INDICATORS =
     [\<lparr>code = ''NY.GDP.MKTP.KD.ZG'', name = ''GDP Growth'', weight = 0.30,
        signal = (\<lambda>v prev. if v < 0 then 1 else if v < 1 then 0.5 else 0)\<rparr>,
      \<lparr>code = ''SL.UEM.TOTL.ZS'', name = ''Unemployment'', weight = 0.20,
        signal = (\<lambda>v prev. case prev of None \<Rightarrow> 0
                   | Some p \<Rightarrow> let delta = v - p
                              in if delta > 2 then 1 else if delta > 0.5 then 0.6
                                 else if delta > 0 then 0.3 else 0)\<rparr>,
      \<lparr>code = ''FP.CPI.TOTL.ZG'', name = ''Inflation'', weight = 0.15,
        signal = (\<lambda>v prev. if v > 15 then 1 else if v > 10 then 0.7 else if v > 5 then 0.3
                            else if v < 0 then 0.5 else 0)\<rparr>,
      \<lparr>code = ''NE.EXP.GNFS.ZS'', name = ''Exports (% GDP)'', weight = 0.15,
        signal = (\<lambda>v prev. case prev of None \<Rightarrow> 0
                   | Some p \<Rightarrow> let delta = v - p
                              in if delta < - 5 then 0.8 else if delta < - 2 then 0.4 else 0)\<rparr>,
      \<lparr>code = ''BX.KLT.DINV.WD.GD.ZS'', name = ''FDI Inflows'', weight = 0.10,
        signal = (\<lambda>v prev. case prev of None \<Rightarrow> 0
                   | Some p \<Rightarrow> let delta = v - p
                              in if delta < - 2 then 0.8 else if delta < - 0.5 then 0.4 else 0)\<rparr>,
      \<lparr>code = ''GC.DOD.TOTL.GD.ZS'', name = ''Govt Debt (% GDP)'', weight = 0.10,
        signal = (\<lambda>v prev. if v > 100 then 0.8 else if v > 80 then 0.5 else if v > 60 then 0.2
                            else 0)\<rparr>]"

type_synonym year_values = "(string \<times> real) list"

text \<open>\<^verbatim>\<open>yearData[d.year][ind.code] = d.value\<close> for every non-missing finite point of one
  indicator's data.\<close>

definition addData ::
  "string \<Rightarrow> (nat \<times> year_values) list \<Rightarrow> point list \<Rightarrow> (nat \<times> year_values) list" where
  "addData c yearData ds =
     foldl (\<lambda>yd d. if \<not> valid d then yd
                    else
                      let inner = (case map_of yd (year d) of None \<Rightarrow> [] | Some m \<Rightarrow> m)
                      in AList.update (year d) (AList.update c (num d) inner) yd)
           yearData ds"

text \<open>\<^verbatim>\<open>prevYearData ? (prevYearData[ind.code] || null) : null\<close>: the operator
  \<^verbatim>\<open>||\<close> replaces every falsy value, also the number 0, by \<^verbatim>\<open>null\<close>.\<close>

definition prevValOf :: "year_values option \<Rightarrow> string \<Rightarrow> real option" where
  "prevValOf prevYearData c =
     (case prevYearData of
        None \<Rightarrow> None
      | Some m \<Rightarrow> (case map_of m c of None \<Rightarrow> None
                  | Some v \<Rightarrow> if v = 0 then None else Some v))"

record signal_entry =
  s_name :: string
  s_value :: real
  s_signal :: real
  s_weight :: real
  contribution :: real
  status :: string

record timeline_entry =
  t_year :: nat
  probability :: real
  signals :: "signal_entry list"
  riskLevel :: string

text \<open>The inner \<^verbatim>\<open>forEach\<close> over the indicators: total weight, composite signal and
  the signal list of one year.\<close>

definition yearSums :: "year_values \<Rightarrow> year_values option \<Rightarrow> real \<times> real \<times> signal_entry list" where
  "yearSums yd prevYearData =
     foldl (\<lambda>(totalWeight, compositeSignal, sigs) ind.
              case map_of yd (code ind) of
                None \<Rightarrow> (totalWeight, compositeSignal, sigs)
              | Some v \<Rightarrow>
                  let prevVal = prevValOf prevYearData (code ind);
                      sig = signal ind v prevVal
                  in (totalWeight + weight ind, compositeSignal + sig * weight ind,
                      sigs @ [\<lparr>s_name = name ind, s_value = v, s_signal = sig,
                               s_weight = weight ind, contribution = sig * weight ind,
                               status = (if sig \<ge> 0.7 then ''danger''
                                         else if sig \<ge> 0.3 then ''warning'' else ''safe'')\<rparr>]))
           (0, 0, []) RECESSION_INDICATORS"

text \<open>The local \<^verbatim>\<open>probability\<close> of one year, a fraction.\<close>

definition yearProbability :: "year_values \<Rightarrow> year_values option \<Rightarrow> real" where
  "yearProbability yd prevYearData =
     (let tw = fst (yearSums yd prevYearData);
          cs = fst (snd (yearSums yd prevYearData))
      in if tw > 0 then min 1 (cs / tw) else 0)"

definition riskLevelOf :: "real \<Rightarrow> string" where
  "riskLevelOf p =
     (if p \<ge> 0.6 then ''high'' else if p \<ge> 0.35 then ''elevated''
      else if p \<ge> 0.15 then ''moderate'' else ''low'')"

text \<open>The timeline entry stores the probability as a rounded percentage.\<close>

definition yearEntry :: "nat \<Rightarrow> year_values \<Rightarrow> year_values option \<Rightarrow> timeline_entry" where
  "yearEntry y yd prevYearData =
     (let p = yearProbability yd prevYearData
      in \<lparr>t_year = y, probability = round_half_up (p * 100),
          signals = snd (snd (yearSums yd prevYearData)),
          riskLevel = riskLevelOf p\<rparr>)"

definition buildTimeline :: "(nat \<times> year_values) list \<Rightarrow> nat list \<Rightarrow> timeline_entry list" where
  "buildTimeline yearData years =
     fst (foldl (\<lambda>(tl, prevYearData) y.
                   let yd = (case map_of yearData y of None \<Rightarrow> [] | Some m \<Rightarrow> m)
                   in (tl @ [yearEntry y yd prevYearData], Some yd))
                ([], None) years)"

record recession_result =
  r_latestYear :: nat
  r_probability :: real
  r_riskLevel :: string
  r_signals :: "signal_entry list"
  r_alert :: "string option"
  r_timeline :: "timeline_entry list"
  r_trend :: real
  r_projected12m :: real

datatype recession_outcome = Insufficient | Assessment recession_result

text \<open>
  \<^verbatim>\<open>PG.predictRecession\<close> after the fetches: \<open>fetched c\<close> is the data that arrived for the
  indicator with code \<open>c\<close> (empty when the request failed). \<open>Insufficient\<close> is the
  object with \<^verbatim>\<open>error: 'Insufficient data'\<close> and an empty timeline. Of the alert only
  its level is kept; the country code and the indicator counts are left out.
\<close>

definition predictRecession :: "(string \<Rightarrow> point list) \<Rightarrow> recession_outcome" where
  "predictRecession fetched =
     (let res = map (\<lambda>ind. fetched (code ind)) RECESSION_INDICATORS;
          yearData = foldl (\<lambda>yd idx. addData (code (RECESSION_INDICATORS ! idx)) yd (res ! idx))
                           [] [0..<length res];
          years = sort (map fst yearData)
      in if length years < 3 then Insufficient
         else
           let tl = buildTimeline yearData years;
               k = length tl;
               latest = tl ! (k - 1);
               trend = (if k \<ge> 3 then probability (tl ! (k - 1)) - probability (tl ! (k - 3))
                        else 0);
               alert = (if probability latest \<ge> 60 then Some ''critical''
                        else if probability latest \<ge> 35 then Some ''warning''
                        else if trend > 15 then Some ''watch'' else None);
               recentTrend = (if k \<ge> 5
                              then (probability (tl ! (k - 1)) - probability (tl ! (k - 5))) / 5
                              else 0);
               projected = max 0 (min 100 (round_half_up (probability latest + recentTrend)))
           in Assessment \<lparr>r_latestYear = t_year latest, r_probability = probability latest,
                r_riskLevel = riskLevel latest, r_signals = signals latest, r_alert = alert,
                r_timeline = tl, r_trend = trend, r_projected12m = projected\<rparr>)"


text \<open>Fetched data in which only FDI inflows arrived: 0 in 2000, then -3 in 2001 and
  2002.\<close>

definition fdiZeroThenFall :: "string \<Rightarrow> point list" where
  "fdiZeroThenFall c =
     (if c = ''BX.KLT.DINV.WD.GD.ZS'' then [pt 2000 0, pt 2001 (- 3), pt 2002 (- 3)] else [])"

section \<open>Anomaly detection: the short-series result\<close>

text \<open>
  Claim C10. With fewer than 4 valid (non-missing, finite) points the result of
  \<open>detectAnomalies\<close> is exactly the empty anomaly list together with all valid points
  as normal, and carries no stats summary; with 4 or more valid points the stats summary
  is always present.
\<close>

theorem detectAnomalies_short_or_stats:
  "(if length (filter valid series) < 4
    then detectAnomalies series method threshold
           = \<lparr>anomalies = [], normal = filter valid series, stats = None\<rparr>
    else stats (detectAnomalies series method threshold) \<noteq> None)"
  by (simp add: detectAnomalies_def Let_def)

section \<open>Anomaly detection: the z-score of the six-point series\<close>

lemma classify_step:
  "classify m t mu sd lo hi acc d =
     (if flagOf m t mu sd lo hi d then (fst acc @ [mkAnomaly t mu sd lo hi d], snd acc)
      else (fst acc, snd acc @ [d]))"
  by (simp add: classify_def flagOf_def mkAnomaly_def zOf_def outside_def Let_def)

lemma foldl_classify:
  "foldl (classify m t mu sd lo hi) acc vals =
     (fst acc @ map (mkAnomaly t mu sd lo hi) (filter (flagOf m t mu sd lo hi) vals),
      snd acc @ filter (\<lambda>d. \<not> flagOf m t mu sd lo hi d) vals)"
  by (induction vals arbitrary: acc) (simp_all add: classify_step)

lemma flagOf_zscore: "flagOf ''zscore'' t mu sd lo hi = (\<lambda>d. t \<le> zOf mu sd d)"
  by (rule ext) (simp add: flagOf_def)

lemma val_mkAnomaly: "val (mkAnomaly t mu sd lo hi d) = val d"
  by (simp add: mkAnomaly_def point.defs)

lemma val_pt: "val (pt y v) = Some (Fin v)"
  by (simp add: pt_def)

lemma sixPoints_stats:
  "calcStats (sixPoints y0 y1 y2 y3 y4 y5) =
     \<lparr>mean = 25, std = sqrt 1350, minimum = 10, maximum = 100, median = 10, count = 6,
      variance = 1350\<rparr>"
  by (simp add: calcStats_def sixPoints_def pt_def Let_def power2_eq_square)

lemma sixPoints_valid: "filter valid (sixPoints y0 y1 y2 y3 y4 y5) = sixPoints y0 y1 y2 y3 y4 y5"
  by (simp add: sixPoints_def valid_def pt_def)

lemma sqrt_1350_gt: "30 < sqrt (1350::real)"
  by (rule real_less_rsqrt) simp

lemma sqrt_1350_lt: "sqrt (1350::real) < 75 / 2"
  by (rule real_less_lsqrt) (simp_all add: power2_eq_square)

lemma zOf_ten: "zOf 25 (sqrt 1350) (pt y 10) = 15 / sqrt 1350"
  using sqrt_1350_gt by (simp add: zOf_def num_def pt_def)

lemma zOf_hundred: "zOf 25 (sqrt 1350) (pt y 100) = 75 / sqrt 1350"
  using sqrt_1350_gt by (simp add: zOf_def num_def pt_def)

lemma sixPoints_anomalies:
  "anomalies (detectAnomalies (sixPoints y0 y1 y2 y3 y4 y5) ''zscore'' t) =
     map (mkAnomaly t 25 (sqrt 1350) 10 10)
       (filter (\<lambda>d. t \<le> zOf 25 (sqrt 1350) d) (sixPoints y0 y1 y2 y3 y4 y5))"
proof -
  have len: "length (sixPoints y0 y1 y2 y3 y4 y5) = 6"
    by (simp add: sixPoints_def)
  have srt: "sort (map num (sixPoints y0 y1 y2 y3 y4 y5)) = [10, 10, 10, 10, 10, 100]"
    by (simp add: sixPoints_def num_def pt_def)
  have i1: "nat \<lfloor>real (6::nat) * 0.25\<rfloor> = 1" by simp
  have i3: "nat \<lfloor>real (6::nat) * 0.75\<rfloor> = 4" by simp
  show ?thesis
    unfolding detectAnomalies_def Let_def sixPoints_valid len srt i1 i3 sixPoints_stats
      foldl_classify
    by (simp add: flagOf_zscore)
qed

text \<open>
  Claim C3, as stated, at the years 2000 to 2005: in z-score mode with threshold 2.5 the
  series 10, 10, 10, 10, 10, 100 has no anomaly at all, so the point with value 100 is not
  flagged.
\<close>

theorem sixPoints_zscore_25_flags_nothing:
  "anomalies (detectAnomalies (sixPoints 2000 2001 2002 2003 2004 2005) ''zscore'' 2.5) = []"
  unfolding sixPoints_anomalies using sqrt_1350_gt
  by (simp add: sixPoints_def zOf_ten zOf_hundred field_simps)

text \<open>
  Claim C3, amended. For the six-point series with values 10, 10, 10, 10, 10, 100 (at any
  years) the sample standard deviation is \<open>sqrt 1350\<close>, the z-score of the value 100 is
  \<open>75 / sqrt 1350\<close>, which lies strictly between 2 and 2.5, and \<open>detectAnomalies\<close> in
  z-score mode flags the point with value 100 exactly when the threshold is at most
  \<open>75 / sqrt 1350\<close>.
\<close>

theorem sixPoints_zscore_flags_100_iff:
  "(\<exists>a \<in> set (anomalies (detectAnomalies (sixPoints y0 y1 y2 y3 y4 y5) ''zscore'' t)).
       val a = Some (Fin 100)) = (t \<le> 75 / sqrt 1350)
   \<and> 2 < 75 / sqrt (1350::real) \<and> 75 / sqrt (1350::real) < 2.5"
proof -
  have "(\<exists>a \<in> set (anomalies (detectAnomalies (sixPoints y0 y1 y2 y3 y4 y5) ''zscore'' t)).
       val a = Some (Fin 100)) = (t \<le> 75 / sqrt 1350)"
    unfolding sixPoints_anomalies
    by (auto simp add: sixPoints_def zOf_ten zOf_hundred val_mkAnomaly val_pt)
  moreover have "2 < 75 / sqrt (1350::real)"
    using sqrt_1350_lt sqrt_1350_gt by (simp add: field_simps)
  moreover have "75 / sqrt (1350::real) < 2.5"
    using sqrt_1350_gt by (simp add: field_simps)
  ultimately show ?thesis by blast
qed

section \<open>Volatility\<close>

lemma foldl_add_sum: "foldl (\<lambda>a b. a + f b) a xs = a + sum_list (map f xs)"
  for a :: real
  by (induction xs arbitrary: a) simp_all

lemma foldl_plus_sum: "foldl (\<lambda>a b. a + b) a xs = a + sum_list xs"
  for a :: real
  using foldl_add_sum [of "\<lambda>x. x" a xs] by simp

lemma map_snd_enumerate_fun: "map (\<lambda>x. f (snd x)) (enumerate k xs) = map f xs"
  by (induction xs arbitrary: k) simp_all

lemma map_val_indexed: "map val (indexed vs) = map (\<lambda>v. Some (Fin v)) vs"
  using map_snd_enumerate_fun [of "\<lambda>v. Some (Fin v)" 0 vs]
  by (simp add: indexed_def pt_def case_prod_unfold comp_def)

lemma finite_vals_indexed: "List.map_filter finite_of (map val (indexed vs)) = vs"
  unfolding map_val_indexed by (induction vs) (simp_all add:)

lemma std_calcStats_indexed: "std (calcStats (indexed vs)) = sample_std vs"
proof (cases vs)
  case Nil
  then show ?thesis by (simp add: calcStats_def indexed_def zeroStats_def sample_std_def)
next
  case (Cons v ws)
  then have ne: "indexed vs \<noteq> []" by (simp add: indexed_def enumerate_eq_zip)
  show ?thesis
  proof (cases ws)
    case Nil
    with Cons show ?thesis using ne
      by (simp add: calcStats_def finite_vals_indexed Let_def sample_std_def)
  next
    case (Cons w us)
    with \<open>vs = v # ws\<close> have len: "1 < length vs" by simp
    then show ?thesis using ne
      by (simp add: calcStats_def finite_vals_indexed Let_def sample_std_def
          foldl_add_sum foldl_plus_sum zeroStats_def)
  qed
qed

text \<open>
  Claim C6, as stated, at the series 1 (2000), 2 (2001): there is one growth observation,
  fewer than two, and \<open>calcVolatility\<close> returns 0, not \<^verbatim>\<open>null\<close>.
\<close>

theorem calcVolatility_one_growth_not_null:
  "length (growthRates (List.map_filter finite_of (map val [pt 2000 1, pt 2001 2]))) = 1
   \<and> calcVolatility [pt 2000 1, pt 2001 2] = Some 0"
  by (simp add: calcVolatility_def Let_def std_calcStats_indexed sample_std_def growthRates_def
      pt_def)

text \<open>
  Claim C6, amended. \<open>calcVolatility\<close> returns \<^verbatim>\<open>null\<close> exactly when the series has fewer
  than 2 valid (non-missing, finite) values; otherwise it returns the sample standard
  deviation (denominator \<open>n - 1\<close>) of the year-over-year percentage-growth observations,
  steps with a prior value of exactly 0 being skipped, which is 0 when there are fewer
  than 2 such observations.
\<close>

theorem calcVolatility_sample_std:
  "calcVolatility series =
     (let vals = List.map_filter finite_of (map val series)
      in if length vals < 2 then None else Some (sample_std (growthRates vals)))"
  by (cases "series = []")
    (simp_all add: calcVolatility_def Let_def std_calcStats_indexed)

section \<open>Holt-Winters: the MAPE\<close>

lemma holtwinters_mape:
  "series \<noteq> [] \<Longrightarrow> 3 \<le> length (filter valid series) \<Longrightarrow>
   map_option (\<lambda>r. mape (accuracy r)) (fst (holtwinters m series a b hz cl)) =
     Some (mapeOf (hwErrors a b (map num (filter valid series))) (map num (filter valid series)))"
  by (simp add: holtwinters_def Let_def hwErrors_def)

lemma hwErrors_1_2_0: "hwErrors 0.3 0.1 [1, 2, 0] = [- 1, - 0.67, - 3.4189]"
  by (simp add: hwErrors_def hwStep_def Let_def)

lemma hwErrors_0_1_2: "hwErrors 0.3 0.1 [0, 1, 2] = [- 1, - 0.67, - 0.4189]"
  by (simp add: hwErrors_def hwStep_def Let_def)

lemma mapeOf_1_2_0: "mapeOf [- 1, - 0.67, - 3.4189] [1, 2, 0] = Fin 44.5"
  by (simp add: mapeOf_def Let_def enumerate_eq_zip upt_rec)

lemma mapeOf_0_1_2: "mapeOf [- 1, - 0.67, - 0.4189] [0, 1, 2] = PInf"
  by (simp add: mapeOf_def Let_def enumerate_eq_zip upt_rec)

lemma mape_spec_1_2_0: "mape_spec [- 1, - 0.67, - 3.4189] [1, 2, 0] = 66.75"
  by (simp add: mape_spec_def Let_def)

text \<open>
  Claim C5 at two series with a zero actual value (default parameters). For the values
  1, 2, 0 the code reports a MAPE of 44.5: the two terms 100 and 33.5 are divided by the
  number of all points, 3, whereas the mean over the two pairs with a nonzero actual is
  66.75. For the values 0, 1, 2 the residuals kept by the filter are divided by the
  actuals at the positions 0 and 1 of the unfiltered data, the first of which is the
  zero, and the reported MAPE is infinite.
\<close>

theorem holtwinters_mape_divides_by_all_points:
  "map_option (\<lambda>r. mape (accuracy r))
     (fst (holtwinters 0 [pt 2000 1, pt 2001 2, pt 2002 0] 0.3 0.1 5 95)) = Some (Fin 44.5)
   \<and> mape_spec (hwErrors 0.3 0.1 [1, 2, 0]) [1, 2, 0] = 66.75
   \<and> map_option (\<lambda>r. mape (accuracy r))
     (fst (holtwinters 0 [pt 2000 0, pt 2001 1, pt 2002 2] 0.3 0.1 5 95)) = Some PInf"
proof -
  have v1: "filter valid [pt 2000 1, pt 2001 2, pt 2002 0] = [pt 2000 1, pt 2001 2, pt 2002 0]"
    by (simp add: valid_def pt_def)
  have v2: "filter valid [pt 2000 0, pt 2001 1, pt 2002 2] = [pt 2000 0, pt 2001 1, pt 2002 2]"
    by (simp add: valid_def pt_def)
  have n1: "map num [pt 2000 1, pt 2001 2, pt 2002 0] = [1, 2, 0]"
    by (simp add: num_def pt_def)
  have n2: "map num [pt 2000 0, pt 2001 1, pt 2002 2] = [0, 1, 2]"
    by (simp add: num_def pt_def)
  have "map_option (\<lambda>r. mape (accuracy r))
     (fst (holtwinters 0 [pt 2000 1, pt 2001 2, pt 2002 0] 0.3 0.1 5 95)) = Some (Fin 44.5)"
    using holtwinters_mape [of "[pt 2000 1, pt 2001 2, pt 2002 0]" 0 "0.3" "0.1" 5 95]
    unfolding v1 n1 hwErrors_1_2_0 mapeOf_1_2_0 by simp
  moreover have "mape_spec (hwErrors 0.3 0.1 [1, 2, 0]) [1, 2, 0] = 66.75"
    by (simp only: hwErrors_1_2_0 mape_spec_1_2_0)
  moreover have "map_option (\<lambda>r. mape (accuracy r))
     (fst (holtwinters 0 [pt 2000 0, pt 2001 1, pt 2002 2] 0.3 0.1 5 95)) = Some PInf"
    using holtwinters_mape [of "[pt 2000 0, pt 2001 1, pt 2002 2]" 0 "0.3" "0.1" 5 95]
    unfolding v2 n2 hwErrors_0_1_2 mapeOf_0_1_2 by simp
  ultimately show ?thesis by blast
qed

section \<open>Pearson correlation: a non-finite input value\<close>

lemma alignPairs_nan:
  "alignPairs nanSeries finSeries = [(Fin 1, Fin 1), (Fin 2, Fin 2), (Fin 3, Fin 3), (NaN, Fin 4)]"
  by (simp add: alignPairs_def byYearA_def byYearB_def putA_def putB_def nanSeries_def
      finSeries_def pt_def)

lemma alignPairs_nan_filtered:
  "alignPairs (filter valid nanSeries) (filter valid finSeries) =
     [(Fin 1, Fin 1), (Fin 2, Fin 2), (Fin 3, Fin 3)]"
  by (simp add: alignPairs_def byYearA_def byYearB_def putA_def putB_def nanSeries_def
      finSeries_def pt_def valid_def)

text \<open>
  Claim C9 at two series over the years 2000 to 2003, the first with \<^verbatim>\<open>NaN\<close> at 2003:
  the year 2003 enters the aligned pairs with the value \<^verbatim>\<open>NaN\<close> and the correlation
  returned is \<^verbatim>\<open>NaN\<close>, whereas on the series with the non-finite point filtered out it
  is 1.
\<close>

theorem pearson_nan_input_influences_result:
  "(NaN, Fin 4) \<in> set (alignPairs nanSeries finSeries)
   \<and> pearson nanSeries finSeries = Some NaN
   \<and> pearson (filter valid nanSeries) (filter valid finSeries) = Some (Fin 1)"
proof -
  have "pearson nanSeries finSeries = Some NaN"
    by (simp add: pearson_def alignPairs_nan Let_def pearsonSums_def jsub_def)
  moreover have "pearson (filter valid nanSeries) (filter valid finSeries) = Some (Fin 1)"
    by (simp add: pearson_def alignPairs_nan_filtered Let_def pearsonSums_def jsub_def
        round_half_up_def)
  ultimately show ?thesis by (simp add: alignPairs_nan)
qed

section \<open>Composite risk scorer: a prior value of zero\<close>

lemma indicator_codes:
  "map code RECESSION_INDICATORS =
     [''NY.GDP.MKTP.KD.ZG'', ''SL.UEM.TOTL.ZS'', ''FP.CPI.TOTL.ZG'', ''NE.EXP.GNFS.ZS'',
      ''BX.KLT.DINV.WD.GD.ZS'', ''GC.DOD.TOTL.GD.ZS'']"
  by (simp add: RECESSION_INDICATORS_def)

lemma indicators_length: "length RECESSION_INDICATORS = 6"
  by (simp add: RECESSION_INDICATORS_def)

lemma code_nth: "i < 6 \<Longrightarrow> code (RECESSION_INDICATORS ! i) = map code RECESSION_INDICATORS ! i"
  by (simp add: indicators_length)

lemma addData_Nil: "addData c yd [] = yd"
  by (simp add: addData_def)

lemma fdi_res:
  "map (\<lambda>ind. fdiZeroThenFall (code ind)) RECESSION_INDICATORS
     = [[], [], [], [], [pt 2000 0, pt 2001 (- 3), pt 2002 (- 3)], []]"
proof -
  have "map (\<lambda>ind. fdiZeroThenFall (code ind)) RECESSION_INDICATORS
      = map fdiZeroThenFall (map code RECESSION_INDICATORS)" by simp
  also have "\<dots> = [[], [], [], [], [pt 2000 0, pt 2001 (- 3), pt 2002 (- 3)], []]"
    unfolding indicator_codes by (simp add: fdiZeroThenFall_def)
  finally show ?thesis .
qed

lemma fdi_addData:
  "addData ''BX.KLT.DINV.WD.GD.ZS'' [] [pt 2000 0, pt 2001 (- 3), pt 2002 (- 3)] =
     [(2000, [(''BX.KLT.DINV.WD.GD.ZS'', 0)]), (2001, [(''BX.KLT.DINV.WD.GD.ZS'', - 3)]),
      (2002, [(''BX.KLT.DINV.WD.GD.ZS'', - 3)])]"
  by (simp add: addData_def pt_def valid_def num_def)

lemma upt_0_6: "[0..<6] = [0, 1, 2, 3, 4, 5]"
  by (simp add: upt_rec)

lemma fdi_yearData:
  "foldl (\<lambda>yd idx. addData (code (RECESSION_INDICATORS ! idx)) yd
            (map (\<lambda>ind. fdiZeroThenFall (code ind)) RECESSION_INDICATORS ! idx)) [] [0..<6]
   = [(2000, [(''BX.KLT.DINV.WD.GD.ZS'', 0)]), (2001, [(''BX.KLT.DINV.WD.GD.ZS'', - 3)]),
      (2002, [(''BX.KLT.DINV.WD.GD.ZS'', - 3)])]"
  unfolding fdi_res upt_0_6
  by (simp add: addData_Nil code_nth indicator_codes fdi_addData)

lemma fdi_signal:
  "signal (RECESSION_INDICATORS ! 4) v p =
     (case p of None \<Rightarrow> 0
      | Some q \<Rightarrow> if v - q < - 2 then 0.8 else if v - q < - 0.5 then 0.4 else 0)"
  by (simp add: RECESSION_INDICATORS_def Let_def)

lemma fdi_yearSums:
  "fst (yearSums [(''BX.KLT.DINV.WD.GD.ZS'', v)] prev) = 0.10 \<and>
   fst (snd (yearSums [(''BX.KLT.DINV.WD.GD.ZS'', v)] prev)) =
     signal (RECESSION_INDICATORS ! 4) v (prevValOf prev ''BX.KLT.DINV.WD.GD.ZS'') * 0.10"
  by (simp add: yearSums_def RECESSION_INDICATORS_def Let_def)

lemma fdi_yearProbability:
  "yearProbability [(''BX.KLT.DINV.WD.GD.ZS'', v)] prev =
     min 1 (signal (RECESSION_INDICATORS ! 4) v (prevValOf prev ''BX.KLT.DINV.WD.GD.ZS''))"
  by (simp add: yearProbability_def fdi_yearSums Let_def)

lemma fdi_entries:
  "map (\<lambda>e. (t_year e, probability e, riskLevel e))
     (buildTimeline [(2000, [(''BX.KLT.DINV.WD.GD.ZS'', 0)]),
        (2001, [(''BX.KLT.DINV.WD.GD.ZS'', - 3)]), (2002, [(''BX.KLT.DINV.WD.GD.ZS'', - 3)])]
        [2000, 2001, 2002])
   = [(2000, 0, ''low''), (2001, 0, ''low''), (2002, 0, ''low'')]"
  by (simp add: buildTimeline_def yearEntry_def fdi_yearProbability fdi_signal prevValOf_def
      riskLevelOf_def round_half_up_def Let_def)

lemma fdi_years:
  "sort (map fst [(2000::nat, [(''BX.KLT.DINV.WD.GD.ZS'', 0::real)]),
      (2001, [(''BX.KLT.DINV.WD.GD.ZS'', - 3)]), (2002, [(''BX.KLT.DINV.WD.GD.ZS'', - 3)])])
   = [2000, 2001, 2002]"
  by simp

text \<open>
  Claim C7 at fetched data in which only FDI inflows arrived, 0 in 2000 and -3 in 2001
  and 2002. In 2001 the prior year's value is available and is 0; the FDI signal of the
  value -3 against the prior value 0 is 0.8, which gives the probability 0.8 and the
  level \<open>high\<close>. The code passes \<^verbatim>\<open>null\<close> for the prior value 0, so the signal is 0 and
  the year 2001 is reported with probability 0 and level \<open>low\<close>.
\<close>

theorem predictRecession_zero_prior_is_dropped:
  "(case predictRecession fdiZeroThenFall of
      Insufficient \<Rightarrow> []
    | Assessment r \<Rightarrow> map (\<lambda>e. (t_year e, probability e, riskLevel e)) (r_timeline r))
     = [(2000, 0, ''low''), (2001, 0, ''low''), (2002, 0, ''low'')]
   \<and> signal (RECESSION_INDICATORS ! 4) (- 3) (Some 0) = 0.8
   \<and> riskLevelOf (min 1 (0.8 * weight (RECESSION_INDICATORS ! 4)
                              / weight (RECESSION_INDICATORS ! 4))) = ''high''"
proof -
  have len: "length (map (\<lambda>ind. fdiZeroThenFall (code ind)) RECESSION_INDICATORS) = 6"
    by (simp add: indicators_length)
  have "(case predictRecession fdiZeroThenFall of
      Insufficient \<Rightarrow> []
    | Assessment r \<Rightarrow> map (\<lambda>e. (t_year e, probability e, riskLevel e)) (r_timeline r))
     = [(2000, 0, ''low''), (2001, 0, ''low''), (2002, 0, ''low'')]"
    unfolding predictRecession_def Let_def len fdi_yearData fdi_years
    by (simp add: fdi_entries)
  moreover have "signal (RECESSION_INDICATORS ! 4) (- 3) (Some 0) = 0.8"
    by (simp add: fdi_signal)
  moreover have "riskLevelOf (min 1 (0.8 * weight (RECESSION_INDICATORS ! 4)
                              / weight (RECESSION_INDICATORS ! 4))) = ''high''"
    by (simp add: riskLevelOf_def RECESSION_INDICATORS_def)
  ultimately show ?thesis by blast
qed

section \<open>Gaussian elimination\<close>

lemma pivotAt_step:
  "swapRows (stateBefore A b c) c (pivotRow (stateBefore A b c) (length A) c) ! c ! c
     = pivotAt A b c"
  by (simp add: pivotAt_def Let_def)

lemma eliminate_from:
  "c \<le> length A \<Longrightarrow>
   (eliminate (length A) [c..<length A] (stateBefore A b c) = None) =
     (\<exists>col. c \<le> col \<and> col < length A \<and> \<bar>pivotAt A b col\<bar> < 1 / 10 ^ 12)"
proof (induction "length A - c" arbitrary: c)
  case 0
  then have "c = length A" by simp
  then show ?case by auto
next
  case (Suc k)
  then have lt: "c < length A" by simp
  have IH: "(eliminate (length A) [Suc c..<length A] (stateBefore A b (Suc c)) = None) =
     (\<exists>col. Suc c \<le> col \<and> col < length A \<and> \<bar>pivotAt A b col\<bar> < 1 / 10 ^ 12)"
    using Suc.hyps(1) [of "Suc c"] Suc.hyps(2) lt by simp
  show ?case
  proof (cases "\<bar>pivotAt A b c\<bar> < 1 / 10 ^ 12")
    case True
    then have "eliminate (length A) [c..<length A] (stateBefore A b c) = None"
      using lt by (simp add: upt_conv_Cons Let_def pivotAt_step)
    moreover have "\<exists>col. c \<le> col \<and> col < length A \<and> \<bar>pivotAt A b col\<bar> < 1 / 10 ^ 12"
      using True lt by blast
    ultimately show ?thesis by simp
  next
    case False
    then have "eliminate (length A) [c..<length A] (stateBefore A b c)
        = eliminate (length A) [Suc c..<length A] (stateBefore A b (Suc c))"
      using lt by (simp add: upt_conv_Cons Let_def pivotAt_step)
    moreover have "(\<exists>col. c \<le> col \<and> col < length A \<and> \<bar>pivotAt A b col\<bar> < 1 / 10 ^ 12)
        = (\<exists>col. Suc c \<le> col \<and> col < length A \<and> \<bar>pivotAt A b col\<bar> < 1 / 10 ^ 12)"
      using False by (metis Suc_leI le_neq_implies_less Suc_leD)
    ultimately show ?thesis using IH by simp
  qed
qed

lemma solve_None_iff:
  "(solveLinearSystem A b = None) = (\<exists>col < length A. \<bar>pivotAt A b col\<bar> < 1 / 10 ^ 12)"
proof -
  have "(solveLinearSystem A b = None)
      = (eliminate (length A) [0..<length A] (augment A b) = None)"
    by (simp add: solveLinearSystem_def Let_def split: option.splits)
  also have "\<dots> = (\<exists>col. 0 \<le> col \<and> col < length A \<and> \<bar>pivotAt A b col\<bar> < 1 / 10 ^ 12)"
    using eliminate_from [of 0 A b] by simp
  finally show ?thesis by simp
qed

lemma solve_regular_example: "solveLinearSystem [[2, 1], [1, 3]] [5, 10] = Some [1, 3]"
  by (simp add: solveLinearSystem_def augment_def upt_rec pivotRow_def swapRows_def
      elimBelow_def elimRow_def backSubst_def Let_def)

lemma solve_singular_example: "solveLinearSystem [[1, 2], [2, 4]] b = None"
  by (simp add: solveLinearSystem_def augment_def upt_rec pivotRow_def swapRows_def
      elimBelow_def elimRow_def backSubst_def Let_def)

text \<open>
  Claim C2. The elimination kernel solves the system with matrix \<open>[[2,1],[1,3]]\<close> and
  right-hand side \<open>[5,10]\<close> exactly, returning \<open>[1,3]\<close>; for the matrix \<open>[[1,2],[2,4]]\<close> it
  returns the failure value whatever the right-hand side is; and in general it returns the
  failure value exactly when, at some column, the magnitude of the pivot chosen by
  partial pivoting is below \<open>1e-12\<close>.
\<close>

theorem solveLinearSystem_examples_and_singular_iff:
  "solveLinearSystem [[2, 1], [1, 3]] [5, 10] = Some [1, 3]
   \<and> solveLinearSystem [[1, 2], [2, 4]] b = None
   \<and> (solveLinearSystem A b' = None) = (\<exists>col < length A. \<bar>pivotAt A b' col\<bar> < 1 / 10 ^ 12)"
  using solve_regular_example solve_singular_example [of b] solve_None_iff [of A b']
  by (simp only: simp_thms)

section \<open>Pearson correlation of a series with itself\<close>






























section \<open>The correlation matrix and its insights\<close>

lemma square_setCell: "square M k \<Longrightarrow> square (setCell M i j v) k"
proof -
  assume sq: "square M k"
  show ?thesis
  proof (cases "i < length M")
    case True
    then have "length ((M ! i)[j := v]) = k" using sq by (simp add: square_def)
    moreover have "set (M[i := (M ! i)[j := v]]) \<subseteq> insert ((M ! i)[j := v]) (set M)"
      by (rule set_update_subset_insert)
    ultimately show ?thesis using sq by (auto simp add: square_def setCell_def)
  next
    case False
    then show ?thesis using sq by (simp add: setCell_def list_update_beyond)
  qed
qed

lemma nth_setCell:
  "square M k \<Longrightarrow> a < k \<Longrightarrow> c < k \<Longrightarrow>
   setCell M i j v ! a ! c = (if a = i \<and> c = j then v else M ! a ! c)"
  by (cases "a = i") (simp_all add: setCell_def square_def nth_list_update)

lemma square_mirrorSet: "square M k \<Longrightarrow> square (mirrorSet M i j r) k"
  unfolding mirrorSet_def by (intro square_setCell)

lemma nth_mirrorSet:
  assumes "square M k" "a < k" "c < k"
  shows "mirrorSet M i j r ! a ! c =
     (if a = j \<and> c = i then r else if a = i \<and> c = j then r else M ! a ! c)"
proof -
  have sq0: "square (setCell M i j r) k" using assms(1) by (rule square_setCell)
  have "mirrorSet M i j r ! a ! c = (if a = j \<and> c = i then r else setCell M i j r ! a ! c)"
    unfolding mirrorSet_def by (rule nth_setCell [OF sq0 assms(2,3)])
  also have "\<dots> = (if a = j \<and> c = i then r else if a = i \<and> c = j then r else M ! a ! c)"
    by (simp only: nth_setCell [OF assms])
  finally show ?thesis .
qed

lemma inner_fill:
  "square M k \<Longrightarrow> \<forall>j \<in> set js. j < k \<Longrightarrow>
   square (foldl (\<lambda>M' j. mirrorSet M' i j (f j)) M js) k \<and>
   (\<forall>a < k. \<forall>c < k.
      foldl (\<lambda>M' j. mirrorSet M' i j (f j)) M js ! a ! c =
        (if a = i \<and> c \<in> set js then f c
         else if c = i \<and> a \<in> set js then f a else M ! a ! c))"
proof (induction js arbitrary: M)
  case Nil
  then show ?case by simp
next
  case (Cons j js)
  let ?M1 = "mirrorSet M i j (f j)"
  have sq1: "square ?M1 k" using Cons.prems(1) by (rule square_mirrorSet)
  have js: "\<forall>j \<in> set js. j < k" using Cons.prems(2) by simp
  note IH = Cons.IH [OF sq1 js]
  have st: "foldl (\<lambda>M' j. mirrorSet M' i j (f j)) M (j # js)
      = foldl (\<lambda>M' j. mirrorSet M' i j (f j)) ?M1 js" by simp
  show ?case
    unfolding st
  proof (intro conjI allI impI)
    show "square (foldl (\<lambda>M' j. mirrorSet M' i j (f j)) ?M1 js) k" using IH by blast
  next
    fix a c assume ac: "a < k" "c < k"
    have "foldl (\<lambda>M' j. mirrorSet M' i j (f j)) ?M1 js ! a ! c =
        (if a = i \<and> c \<in> set js then f c
         else if c = i \<and> a \<in> set js then f a else ?M1 ! a ! c)"
      using IH ac by blast
    also have "?M1 ! a ! c = (if a = j \<and> c = i then f j else if a = i \<and> c = j then f j else M ! a ! c)"
      by (rule nth_mirrorSet [OF Cons.prems(1) ac])
    finally show "foldl (\<lambda>M' j. mirrorSet M' i j (f j)) ?M1 js ! a ! c =
        (if a = i \<and> c \<in> set (j # js) then f c
         else if c = i \<and> a \<in> set (j # js) then f a else M ! a ! c)"
      by auto
  qed
qed

lemma fillMatrix_fold:
  "fillMatrix ds = foldl (fillRow ds) (replicate (length ds) (replicate (length ds) None)) [0..<length ds]"
  unfolding fillMatrix_def Let_def fillRow_def ..

lemma fillRow_fold:
  "fillRow ds M i =
     foldl (\<lambda>M' j. mirrorSet M' i j (corrAt ds i j)) (setCell M i i (Some (Fin 1)))
       [i + 1..<length ds]"
  unfolding fillRow_def Let_def mirrorSet_def corrAt_def ..

lemma fillRow_cells:
  assumes "square M k" "k = length ds" "a < k" "c < k"
  shows "square (fillRow ds M i) k"
    and "fillRow ds M i ! a ! c =
        (if a = i \<and> i < c then corrAt ds i c
         else if c = i \<and> i < a then corrAt ds i a
         else if a = i \<and> c = i then Some (Fin 1) else M ! a ! c)"
proof -
  have sq: "square (setCell M i i (Some (Fin 1))) k" using assms(1) by (rule square_setCell)
  have js: "\<forall>j \<in> set [i + 1..<length ds]. j < k" using assms(2) by simp
  note fill = inner_fill [OF sq js, of i "corrAt ds i"]
  show "square (fillRow ds M i) k" unfolding fillRow_fold using fill by blast
  have "fillRow ds M i ! a ! c =
      (if a = i \<and> c \<in> set [i + 1..<length ds] then corrAt ds i c
       else if c = i \<and> a \<in> set [i + 1..<length ds] then corrAt ds i a
       else setCell M i i (Some (Fin 1)) ! a ! c)"
    unfolding fillRow_fold using fill assms(3,4) by blast
  also have "setCell M i i (Some (Fin 1)) ! a ! c = (if a = i \<and> c = i then Some (Fin 1) else M ! a ! c)"
    by (rule nth_setCell [OF assms(1,3,4)])
  finally show "fillRow ds M i ! a ! c =
        (if a = i \<and> i < c then corrAt ds i c
         else if c = i \<and> i < a then corrAt ds i a
         else if a = i \<and> c = i then Some (Fin 1) else M ! a ! c)"
    using assms(2,3,4) by auto
qed

lemma fill_prefix:
  "m \<le> length ds \<Longrightarrow>
   square (foldl (fillRow ds) (replicate (length ds) (replicate (length ds) None)) [0..<m]) (length ds) \<and>
   (\<forall>a < length ds. \<forall>c < length ds.
      foldl (fillRow ds) (replicate (length ds) (replicate (length ds) None)) [0..<m] ! a ! c =
        (if a = c then (if a < m then Some (Fin 1) else None)
         else if min a c < m then corrAt ds (min a c) (max a c) else None))"
proof (induction m)
  case 0
  then show ?case by (simp add: square_def)
next
  case (Suc m)
  let ?F = "foldl (fillRow ds) (replicate (length ds) (replicate (length ds) None)) [0..<m]"
  have IH1: "square ?F (length ds)" using Suc by simp
  have IH2: "?F ! a ! c =
        (if a = c then (if a < m then Some (Fin 1) else None)
         else if min a c < m then corrAt ds (min a c) (max a c) else None)"
    if "a < length ds" "c < length ds" for a c
    using Suc that by simp
  have step: "foldl (fillRow ds) (replicate (length ds) (replicate (length ds) None)) [0..<Suc m]
      = fillRow ds ?F m" by simp
  show ?case
    unfolding step
  proof (intro conjI allI impI)
    show "square (fillRow ds ?F m) (length ds)"
    proof (cases "length ds")
      case 0
      then show ?thesis using Suc.prems by simp
    next
      case (Suc n)
      then have "0 < length ds" by simp
      then show ?thesis using fillRow_cells(1) [OF IH1 refl, of 0 0] by simp
    qed
  next
    fix a c assume ac: "a < length ds" "c < length ds"
    have "fillRow ds ?F m ! a ! c =
        (if a = m \<and> m < c then corrAt ds m c
         else if c = m \<and> m < a then corrAt ds m a
         else if a = m \<and> c = m then Some (Fin 1) else ?F ! a ! c)"
      by (rule fillRow_cells(2) [OF IH1 refl ac])
    also have "?F ! a ! c =
        (if a = c then (if a < m then Some (Fin 1) else None)
         else if min a c < m then corrAt ds (min a c) (max a c) else None)"
      by (rule IH2 [OF ac])
    finally show "fillRow ds ?F m ! a ! c =
        (if a = c then (if a < Suc m then Some (Fin 1) else None)
         else if min a c < Suc m then corrAt ds (min a c) (max a c) else None)"
      by (auto simp add: min_def max_def)
  qed
qed

lemma fillMatrix_cells:
  "square (fillMatrix ds) (length ds) \<and>
   (\<forall>a < length ds. \<forall>c < length ds.
      fillMatrix ds ! a ! c =
        (if a = c then Some (Fin 1) else corrAt ds (min a c) (max a c)))"
  using fill_prefix [of "length ds" ds]
  by (simp add: fillMatrix_fold min_def)

lemma corr_mkInsight: "corr (mkInsight la lb r) = r"
  by (simp add: mkInsight_def Let_def)

lemma foldl_invariant:
  "Q acc \<Longrightarrow> (\<And>acc' j. Q acc' \<Longrightarrow> Q (f acc' j)) \<Longrightarrow> Q (foldl f acc js)"
  by (induction js arbitrary: acc) simp_all

lemma collect_step:
  assumes "\<forall>x \<in> set acc. strongEnough x"
  shows "\<forall>x \<in> set (case M ! i ! j of None \<Rightarrow> acc
                       | Some r \<Rightarrow> if jge (jabs r) (Fin 0.45)
                                   then acc @ [mkInsight (ls ! i) (ls ! j) r]
                                   else acc). strongEnough x"
proof (cases "M ! i ! j")
  case None
  then show ?thesis using assms by simp
next
  case (Some r)
  show ?thesis
  proof (cases "jge (jabs r) (Fin 0.45)")
    case True
    then have "strongEnough (mkInsight (ls ! i) (ls ! j) r)"
      by (simp only: strongEnough_def corr_mkInsight)
    then show ?thesis using assms Some True by simp
  next
    case False
    then show ?thesis using assms Some by simp
  qed
qed

lemma collect_inner:
  assumes "\<forall>x \<in> set acc. strongEnough x"
  shows "\<forall>x \<in> set (foldl (\<lambda>acc' j. case M ! i ! j of None \<Rightarrow> acc'
                       | Some r \<Rightarrow> if jge (jabs r) (Fin 0.45)
                                   then acc' @ [mkInsight (ls ! i) (ls ! j) r]
                                   else acc') acc js). strongEnough x"
proof (rule foldl_invariant [where Q = "\<lambda>acc. \<forall>x \<in> set acc. strongEnough x"])
  show "\<forall>x \<in> set acc. strongEnough x" by (rule assms)
next
  fix acc' j
  assume "\<forall>x \<in> set acc'. strongEnough x"
  then show "\<forall>x \<in> set (case M ! i ! j of None \<Rightarrow> acc'
                       | Some r \<Rightarrow> if jge (jabs r) (Fin 0.45)
                                   then acc' @ [mkInsight (ls ! i) (ls ! j) r]
                                   else acc'). strongEnough x"
    by (rule collect_step)
qed

lemma collect_outer:
  assumes "\<forall>x \<in> set acc. strongEnough x"
  shows "\<forall>x \<in> set (foldl (\<lambda>acc i.
              foldl (\<lambda>acc' j. case M ! i ! j of None \<Rightarrow> acc'
                       | Some r \<Rightarrow> if jge (jabs r) (Fin 0.45)
                                   then acc' @ [mkInsight (ls ! i) (ls ! j) r]
                                   else acc') acc [i + 1..<k]) acc is). strongEnough x"
proof (rule foldl_invariant [where Q = "\<lambda>acc. \<forall>x \<in> set acc. strongEnough x"])
  show "\<forall>x \<in> set acc. strongEnough x" by (rule assms)
next
  fix acc' i
  assume "\<forall>x \<in> set acc'. strongEnough x"
  then show "\<forall>x \<in> set (foldl (\<lambda>acc' j. case M ! i ! j of None \<Rightarrow> acc'
                       | Some r \<Rightarrow> if jge (jabs r) (Fin 0.45)
                                   then acc' @ [mkInsight (ls ! i) (ls ! j) r]
                                   else acc') acc' [i + 1..<k]). strongEnough x"
    by (rule collect_inner)
qed

lemma collectInsights_strong: "\<forall>x \<in> set (collectInsights ls M k). strongEnough x"
  unfolding collectInsights_def by (rule collect_outer) simp

lemma set_js_insert: "set (js_insert cmp x ys) = insert x (set ys)"
  by (induction ys) auto

lemma set_js_sort: "set (js_sort cmp xs) = set xs"
  unfolding js_sort_def by (induction xs) (simp_all add: set_js_insert)

lemma abs_cases: "strongEnough x \<Longrightarrow> jabs (corr x) = PInf \<or> (\<exists>u. jabs (corr x) = Fin u)"
  by (cases "corr x") (simp_all add: strongEnough_def jge_def)

lemma cmp_not_pos: "strongEnough x \<Longrightarrow> strongEnough y \<Longrightarrow> \<not> jgt (absCmp x y) (Fin 0) \<Longrightarrow> byAbsDesc x y"
  using abs_cases [of x] abs_cases [of y]
  by (auto simp add: absCmp_def byAbsDesc_def jsub_def jgt_def jge_def)

lemma cmp_pos: "strongEnough x \<Longrightarrow> strongEnough y \<Longrightarrow> jgt (absCmp x y) (Fin 0) \<Longrightarrow> byAbsDesc y x"
  using abs_cases [of x] abs_cases [of y]
  by (auto simp add: absCmp_def byAbsDesc_def jsub_def jgt_def jge_def)

lemma byAbsDesc_trans:
  "strongEnough x \<Longrightarrow> strongEnough y \<Longrightarrow> strongEnough w \<Longrightarrow>
   byAbsDesc x y \<Longrightarrow> byAbsDesc y w \<Longrightarrow> byAbsDesc x w"
  using abs_cases [of x] abs_cases [of y] abs_cases [of w]
  by (auto simp add: byAbsDesc_def jge_def)

lemma sorted_js_insert:
  "strongEnough x \<Longrightarrow> \<forall>y \<in> set ys. strongEnough y \<Longrightarrow> sorted_wrt byAbsDesc ys \<Longrightarrow>
   sorted_wrt byAbsDesc (js_insert absCmp x ys)"
proof (induction ys)
  case Nil
  then show ?case by simp
next
  case (Cons y ys)
  show ?case
  proof (cases "jgt (absCmp x y) (Fin 0)")
    case True
    have "byAbsDesc y x" using Cons.prems True by (simp add: cmp_pos)
    moreover have "sorted_wrt byAbsDesc (js_insert absCmp x ys)"
      using Cons by simp
    ultimately show ?thesis using True Cons.prems by (simp add: set_js_insert)
  next
    case False
    have xy: "byAbsDesc x y" using Cons.prems False by (simp add: cmp_not_pos)
    have "byAbsDesc x w" if "w \<in> set ys" for w
    proof -
      have "byAbsDesc y w" using Cons.prems(3) that by simp
      then show ?thesis using byAbsDesc_trans [of x y w] xy Cons.prems that by simp
    qed
    then show ?thesis using False xy Cons.prems by simp
  qed
qed

lemma sorted_js_sort:
  "\<forall>x \<in> set xs. strongEnough x \<Longrightarrow> sorted_wrt byAbsDesc (js_sort absCmp xs)"
proof (induction xs)
  case Nil
  then show ?case by (simp add: js_sort_def)
next
  case (Cons x xs)
  have "sorted_wrt byAbsDesc (js_sort absCmp xs)" using Cons by simp
  moreover have "\<forall>y \<in> set (js_sort absCmp xs). strongEnough y"
    using Cons.prems by (simp add: set_js_sort)
  ultimately have "sorted_wrt byAbsDesc (js_insert absCmp x (js_sort absCmp xs))"
    using Cons.prems by (intro sorted_js_insert) simp_all
  then show ?case by (simp add: js_sort_def)
qed

lemma sorted_wrt_take: "sorted_wrt R xs \<Longrightarrow> sorted_wrt R (take n xs)"
  by (induction xs arbitrary: n) (auto simp add: take_Cons split: nat.splits dest: in_set_takeD)

lemma insights_eq:
  "insights (pearsonMatrix ds) =
     take 5 (js_sort absCmp (collectInsights (map label ds) (fillMatrix ds) (length ds)))"
proof -
  have "(\<lambda>a b. jsub (jabs (corr b)) (jabs (corr a))) = absCmp"
    by (intro ext) (simp add: absCmp_def)
  then show ?thesis by (simp add: pearsonMatrix_def Let_def)
qed

text \<open>
  Claim C8. For every list of datasets the matrix returned by \<open>pearsonMatrix\<close> is square (as many rows as datasets, every row of that length), every diagonal entry is 1.0, and the entry at (i, j) equals the entry at (j, i); every entry of the insight list has \<open>|r| \<ge> 0.45\<close>, the list is sorted by descending \<open>|r|\<close>, and it has at most 5 entries.
\<close>

theorem pearsonMatrix_shape:
  "length (matrix (pearsonMatrix ds)) = length ds
   \<and> (\<forall>row \<in> set (matrix (pearsonMatrix ds)). length row = length ds)
   \<and> (\<forall>i < length ds. matrix (pearsonMatrix ds) ! i ! i = Some (Fin 1))
   \<and> (\<forall>i < length ds. \<forall>j < length ds.
        matrix (pearsonMatrix ds) ! i ! j = matrix (pearsonMatrix ds) ! j ! i)
   \<and> (\<forall>x \<in> set (insights (pearsonMatrix ds)). jge (jabs (corr x)) (Fin 0.45))
   \<and> sorted_wrt (\<lambda>a b. jge (jabs (corr a)) (jabs (corr b))) (insights (pearsonMatrix ds))
   \<and> length (insights (pearsonMatrix ds)) \<le> 5"
proof -
  have M: "matrix (pearsonMatrix ds) = fillMatrix ds" by (simp add: pearsonMatrix_def Let_def)
  note cells = fillMatrix_cells [of ds]
  have strong: "\<forall>x \<in> set (js_sort absCmp (collectInsights (map label ds) (fillMatrix ds) (length ds))). strongEnough x"
    using collectInsights_strong by (simp add: set_js_sort)
  have "length (fillMatrix ds) = length ds" "\<forall>row \<in> set (fillMatrix ds). length row = length ds"
    using cells by (simp_all add: square_def)
  moreover have "\<forall>i < length ds. fillMatrix ds ! i ! i = Some (Fin 1)"
    using cells by simp
  moreover have "\<forall>i < length ds. \<forall>j < length ds. fillMatrix ds ! i ! j = fillMatrix ds ! j ! i"
    using cells by (simp add: min.commute max.commute)
  moreover have "\<forall>x \<in> set (insights (pearsonMatrix ds)). jge (jabs (corr x)) (Fin 0.45)"
    unfolding insights_eq using strong by (auto simp add: strongEnough_def dest: in_set_takeD)
  moreover have "sorted_wrt byAbsDesc (insights (pearsonMatrix ds))"
    unfolding insights_eq
    by (intro sorted_wrt_take sorted_js_sort collectInsights_strong)
  then have "sorted_wrt (\<lambda>a b. jge (jabs (corr a)) (jabs (corr b))) (insights (pearsonMatrix ds))"
    by (simp add: byAbsDesc_def [abs_def])
  moreover have "length (insights (pearsonMatrix ds)) \<le> 5"
    unfolding insights_eq by simp
  ultimately show ?thesis unfolding M by blast
qed

lemma twoSets_pearson:
  "pearson [pt 2000 1, pt 2001 2, pt 2002 3] [pt 2000 3, pt 2001 2, pt 2002 1] = Some (Fin (- 1))"
proof -
  have al: "alignPairs [pt 2000 1, pt 2001 2, pt 2002 3] [pt 2000 3, pt 2001 2, pt 2002 1]
      = [(Fin 1, Fin 3), (Fin 2, Fin 2), (Fin 3, Fin 1)]"
    by (simp add: alignPairs_def byYearA_def byYearB_def putA_def putB_def pt_def)
  show ?thesis
    by (simp add: pearson_def al Let_def pearsonSums_def jsub_def round_half_up_def)
qed

lemma twoSets_matrix:
  "fillMatrix twoSets = [[Some (Fin 1), Some (Fin (- 1))], [Some (Fin (- 1)), Some (Fin 1)]]"
  by (simp add: fillMatrix_def twoSets_def Let_def upt_rec setCell_def twoSets_pearson)

lemma twoSets_collect:
  "collectInsights [''A'', ''B''] [[Some (Fin 1), Some (Fin (- 1))], [Some (Fin (- 1)), Some (Fin 1)]] 2
     = [mkInsight ''A'' ''B'' (Fin (- 1))]"
  by (simp add: collectInsights_def upt_rec jge_def)

theorem pearsonMatrix_shape_witness:
  "matrix (pearsonMatrix twoSets) = [[Some (Fin 1), Some (Fin (- 1))], [Some (Fin (- 1)), Some (Fin 1)]]
   \<and> map corr (insights (pearsonMatrix twoSets)) = [Fin (- 1)]
   \<and> map strength (insights (pearsonMatrix twoSets)) = [''very strong'']"
proof -
  have len: "length twoSets = 2" "map label twoSets = [''A'', ''B'']"
    by (simp_all add: twoSets_def)
  show ?thesis
    using pearsonMatrix_shape [of twoSets]
    unfolding pearsonMatrix_def Let_def len twoSets_matrix twoSets_collect
    by (simp add: js_sort_def mkInsight_def jge_def)
qed

section \<open>The logarithms of the p-value are taken of positive numbers\<close>

lemma lnGammaSer_unfold:
  "lnGammaSer zz = 1.000000000190015 + 76.18009172947146 / (zz + 1) + (- 86.50532032941677) / (zz + 2)
     + 24.01409824083091 / (zz + 3) + (- 1.231739572450155) / (zz + 4)
     + (1.208650973866179 / 10 ^ 3) / (zz + 5) + (- 5.395239384953 / 10 ^ 6) / (zz + 6)"
  by (simp add: lnGammaSer_def lanczos_def upt_rec)

lemma series_above_one:
  fixes zz :: real
  assumes zz: "0 < zz" and k0: "1 < k0" and c0: "0 \<le> c0" and c3: "c3 \<le> 0"
    and s1: "0 \<le> c0 + c1 + c3 + c2" and s2: "0 \<le> 3 * (c0 + c1 + c3) + 2 * c2"
    and c5: "c5 \<le> 0" and c4: "0 \<le> c4 + c5"
  shows "1 < k0 + c0 / (zz + 1) + c1 / (zz + 2) + c2 / (zz + 3) + c3 / (zz + 4)
               + c4 / (zz + 5) + c5 / (zz + 6)"
proof -
  have h1: "c0 / (zz + 2) \<le> c0 / (zz + 1)"
    using zz c0 by (intro divide_left_mono) simp_all
  have h3: "c3 / (zz + 2) \<le> c3 / (zz + 4)"
    using zz c3 by (intro divide_left_mono_neg) simp_all
  have num: "0 \<le> (c0 + c1 + c3 + c2) * zz + (3 * (c0 + c1 + c3) + 2 * c2)"
  proof (rule add_nonneg_nonneg)
    show "0 \<le> (c0 + c1 + c3 + c2) * zz" using zz s1 by (intro mult_nonneg_nonneg) simp_all
    show "0 \<le> 3 * (c0 + c1 + c3) + 2 * c2" by (rule s2)
  qed
  have "0 \<le> ((c0 + c1 + c3 + c2) * zz + (3 * (c0 + c1 + c3) + 2 * c2)) / ((zz + 2) * (zz + 3))"
    using zz num by (intro divide_nonneg_pos mult_pos_pos) simp_all
  also have "\<dots> = (c0 + c1 + c3) / (zz + 2) + c2 / (zz + 3)"
  proof -
    have nz: "zz + 2 \<noteq> 0" "zz + 3 \<noteq> 0" using zz by simp_all
    show ?thesis using nz by (simp add: field_simps)
  qed
  finally have h2: "0 \<le> c0 / (zz + 2) + c1 / (zz + 2) + c3 / (zz + 2) + c2 / (zz + 3)"
    by (simp add: add_divide_distrib)
  have h5: "c5 / (zz + 5) \<le> c5 / (zz + 6)"
    using zz c5 by (intro divide_left_mono_neg) simp_all
  have "0 \<le> (c4 + c5) / (zz + 5)" using zz c4 by simp
  then have h4: "0 \<le> c4 / (zz + 5) + c5 / (zz + 5)" by (simp add: add_divide_distrib)
  show ?thesis using k0 h1 h2 h3 h4 h5 by linarith
qed

lemma lnGammaSer_pos: "0 < zz \<Longrightarrow> 1 < lnGammaSer zz"
  unfolding lnGammaSer_unfold
  by (rule series_above_one) simp_all

lemma lnGamma_log_arguments:
  "0 < zz \<Longrightarrow> 0 < zz + 5.5 \<and> 0 < 2.5066282746310005 * lnGammaSer zz / zz"
  using lnGammaSer_pos [of zz] by simp

section \<open>Granger test: the year alignment\<close>













section \<open>Granger test: the lag loop and the best lag\<close>










section \<open>Granger test: a run on concrete series\<close>
















end
